theory Spec2Isabelle
  imports Main "HOL-Library.AList"
begin

section \<open>Python values, dictionaries and exceptions\<close>

text \<open>
  The workflow engine of \<^verbatim>\<open>src/workflow/server.py\<close> computes on untyped Python
  values (YAML workflow definitions, JSON trigger data, tool results). They are
  embedded as the datatype \<open>pyval\<close>. Dictionaries keep their insertion order (it shows
  in \<^verbatim>\<open>str(dict)\<close>), so a dictionary is an association list with string keys.
  Floating point numbers are not part of the model. Strings are lists of \<open>char\<close>; the
  character classes below are those of ASCII text (a character above 127 is taken as
  neither a letter, a digit nor white space).
\<close>

datatype pyval =
    PNone
  | PBool bool
  | PInt int
  | PStr string
  | PList "pyval list"
  | PDict "(string \<times> pyval) list"

type_synonym pydict = "(string \<times> pyval) list"

text \<open>Exceptions are values. \<open>ReError\<close> is \<^verbatim>\<open>re.error\<close>; every constructor is a
  subclass of \<^verbatim>\<open>Exception\<close>, so each is caught by \<^verbatim>\<open>except Exception\<close>.\<close>

datatype exn =
    AttributeError string
  | TypeError string
  | ValueError string
  | KeyError string
  | ReError string
  | JSONDecodeError string

text \<open>\<^verbatim>\<open>d.get(k, default)\<close> and \<^verbatim>\<open>d[k] = v\<close> on a dictionary.\<close>

definition dict_get :: "pydict \<Rightarrow> string \<Rightarrow> pyval \<Rightarrow> pyval" where
  "dict_get d k dflt = (case map_of d k of None \<Rightarrow> dflt | Some v \<Rightarrow> v)"

definition dict_set :: "pydict \<Rightarrow> string \<Rightarrow> pyval \<Rightarrow> pydict" where
  "dict_set d k v = AList.update k v d"

fun type_name :: "pyval \<Rightarrow> string" where
  "type_name PNone = ''NoneType''"
| "type_name (PBool b) = ''bool''"
| "type_name (PInt i) = ''int''"
| "type_name (PStr s) = ''str''"
| "type_name (PList xs) = ''list''"
| "type_name (PDict d) = ''dict''"

text \<open>The exception raised by \<^verbatim>\<open>v.attr\<close> when \<open>v\<close> has no such attribute.\<close>

definition no_attribute :: "pyval \<Rightarrow> string \<Rightarrow> exn" where
  "no_attribute v attr =
     AttributeError ([CHR 0x27] @ type_name v @ ''' object has no attribute '' @ [CHR 0x27] @ attr @ [CHR 0x27])"

section \<open>String operations\<close>

definition lower_char :: "char \<Rightarrow> char" where
  "lower_char c =
     (let n = (of_char c :: nat) in if 65 \<le> n \<and> n \<le> 90 then char_of (n + 32) else c)"

text \<open>\<^verbatim>\<open>s.lower()\<close>\<close>

definition lower :: "string \<Rightarrow> string" where
  "lower s = map lower_char s"

text \<open>The classes \<^verbatim>\<open>\w\<close> and \<^verbatim>\<open>\s\<close> of the \<^verbatim>\<open>re\<close> module; the latter is also what
  \<^verbatim>\<open>str.strip()\<close> removes.\<close>

definition is_digit :: "char \<Rightarrow> bool" where
  "is_digit c = (let n = (of_char c :: nat) in 48 \<le> n \<and> n \<le> 57)"

definition is_word :: "char \<Rightarrow> bool" where
  "is_word c =
     (let n = (of_char c :: nat) in
        (48 \<le> n \<and> n \<le> 57) \<or> (65 \<le> n \<and> n \<le> 90) \<or> (97 \<le> n \<and> n \<le> 122) \<or> n = 95)"

definition is_space :: "char \<Rightarrow> bool" where
  "is_space c =
     (let n = (of_char c :: nat) in (9 \<le> n \<and> n \<le> 13) \<or> (28 \<le> n \<and> n \<le> 32))"

text \<open>\<^verbatim>\<open>s.startswith(p)\<close>\<close>

definition startswith :: "string \<Rightarrow> string \<Rightarrow> bool" where
  "startswith p s = (take (length p) s = p)"

text \<open>\<^verbatim>\<open>needle in hay\<close> on two strings: substring test.\<close>

fun str_in :: "string \<Rightarrow> string \<Rightarrow> bool" where
  "str_in needle [] = (needle = [])"
| "str_in needle (c # cs) = (startswith needle (c # cs) \<or> str_in needle cs)"

text \<open>\<^verbatim>\<open>s.split(sep)\<close> for a one-character separator: never the empty list.\<close>

fun split_on :: "char \<Rightarrow> string \<Rightarrow> string list" where
  "split_on sep [] = [[]]"
| "split_on sep (c # cs) =
     (if c = sep then [] # split_on sep cs
      else (case split_on sep cs of
              [] \<Rightarrow> [[c]]
            | w # ws \<Rightarrow> (c # w) # ws))"

text \<open>\<^verbatim>\<open>s.strip()\<close> and \<^verbatim>\<open>s.strip(chars)\<close>\<close>

definition strip_where :: "(char \<Rightarrow> bool) \<Rightarrow> string \<Rightarrow> string" where
  "strip_where p s = rev (dropWhile p (rev (dropWhile p s)))"

definition strip :: "string \<Rightarrow> string" where
  "strip s = strip_where is_space s"

definition strip_chars :: "string \<Rightarrow> string \<Rightarrow> string" where
  "strip_chars cs s = strip_where (\<lambda>c. c \<in> set cs) s"

text \<open>\<^verbatim>\<open>s.replace(c, r)\<close> for a one-character \<open>c\<close>.\<close>

definition replace_char :: "char \<Rightarrow> string \<Rightarrow> string \<Rightarrow> string" where
  "replace_char c r s = concat (map (\<lambda>x. if x = c then r else [x]) s)"

text \<open>\<^verbatim>\<open>sep.join(xs)\<close>\<close>

fun join :: "string \<Rightarrow> string list \<Rightarrow> string" where
  "join sep [] = []"
| "join sep [x] = x"
| "join sep (x # y # ys) = x @ sep @ join sep (y # ys)"

subsection \<open>Decimal and hexadecimal numerals\<close>

definition digit_char :: "nat \<Rightarrow> char" where
  "digit_char d = char_of (48 + d)"

function str_of_nat :: "nat \<Rightarrow> string" where
  "str_of_nat n = (if n < 10 then [digit_char n] else str_of_nat (n div 10) @ [digit_char (n mod 10)])"
  by pat_completeness auto
termination
  by (relation "measure id") auto

declare str_of_nat.simps [simp del]

definition str_of_int :: "int \<Rightarrow> string" where
  "str_of_int i = (if i < 0 then CHR ''-'' # str_of_nat (nat (- i)) else str_of_nat (nat i))"

text \<open>\<^verbatim>\<open>"%0<w>d" % n\<close>\<close>

definition zero_pad :: "nat \<Rightarrow> nat \<Rightarrow> string" where
  "zero_pad w n = replicate (w - length (str_of_nat n)) (CHR ''0'') @ str_of_nat n"

definition hex_char :: "nat \<Rightarrow> char" where
  "hex_char d = (if d < 10 then char_of (48 + d) else char_of (87 + d))"

subsection \<open>\<^verbatim>\<open>str()\<close> and \<^verbatim>\<open>repr()\<close>\<close>

text \<open>\<^verbatim>\<open>repr\<close> of a string: single quotes, unless the string holds a single quote and
  no double quote; the quote, the backslash and control characters are escaped.\<close>

definition repr_char :: "char \<Rightarrow> char \<Rightarrow> string" where
  "repr_char q c =
     (let n = (of_char c :: nat) in
        if c = q \<or> c = CHR 0x5C then [CHR 0x5C, c]
        else if n = 9 then [CHR 0x5C, CHR ''t'']
        else if n = 10 then [CHR 0x5C, CHR ''n'']
        else if n = 13 then [CHR 0x5C, CHR ''r'']
        else if n < 32 \<or> n = 127 then [CHR 0x5C, CHR ''x'', hex_char (n div 16), hex_char (n mod 16)]
        else [c])"

definition repr_str :: "string \<Rightarrow> string" where
  "repr_str s =
     (let q = (if CHR 0x27 \<in> set s \<and> CHR 0x22 \<notin> set s then CHR 0x22 else CHR 0x27)
      in [q] @ concat (map (repr_char q) s) @ [q])"

fun py_repr :: "pyval \<Rightarrow> string" where
  "py_repr PNone = ''None''"
| "py_repr (PBool b) = (if b then ''True'' else ''False'')"
| "py_repr (PInt i) = str_of_int i"
| "py_repr (PStr s) = repr_str s"
| "py_repr (PList xs) = ''['' @ join '', '' (map py_repr xs) @ '']''"
| "py_repr (PDict d) =
     ''{'' @ join '', '' (map (\<lambda>kv. repr_str (fst kv) @ '': '' @ py_repr (snd kv)) d) @ ''}''"

text \<open>\<^verbatim>\<open>str(v)\<close>: a string is itself, every other value prints as its \<^verbatim>\<open>repr\<close>.\<close>

fun py_str :: "pyval \<Rightarrow> string" where
  "py_str (PStr s) = s"
| "py_str v = py_repr v"

text \<open>\<^verbatim>\<open>str(e)\<close> of an exception: its message; a \<^verbatim>\<open>KeyError\<close> prints the \<^verbatim>\<open>repr\<close> of
  the key.\<close>

fun exn_str :: "exn \<Rightarrow> string" where
  "exn_str (AttributeError m) = m"
| "exn_str (TypeError m) = m"
| "exn_str (ValueError m) = m"
| "exn_str (KeyError k) = repr_str k"
| "exn_str (ReError m) = m"
| "exn_str (JSONDecodeError m) = m"

section \<open>The environment: library functions and clocks\<close>

text \<open>
  What the engine takes from outside the repository is collected in one record and passed
  to every operation:
  \<^item> \<open>re_search\<close> is \<^verbatim>\<open>re.search(pattern, s)\<close> for a pattern that comes from a workflow
    definition: whether a match was found, or the \<^verbatim>\<open>re.error\<close> of an invalid pattern;
  \<^item> \<open>re_findall\<close> is \<^verbatim>\<open>re.findall(pattern, s)\<close> for the fixed patterns of the entity
    extraction, the flag being \<^verbatim>\<open>re.IGNORECASE\<close>: the strings found, or the
    \<^verbatim>\<open>TypeError\<close> of a subject that is not a string;
  \<^item> \<open>json_dumps\<close> is \<^verbatim>\<open>json.dumps(v, indent=...)\<close> (it cannot fail on a \<open>pyval\<close>) and
    \<open>json_loads\<close> is \<^verbatim>\<open>json.loads\<close>;
  \<^item> \<open>now\<close> gives the successive readings of \<^verbatim>\<open>datetime.now()\<close> during one run, and
    \<open>current_timestamp\<close> is SQLite's \<^verbatim>\<open>CURRENT_TIMESTAMP\<close> when a row is written.
\<close>

record datetime =
  year :: nat
  month :: nat
  day :: nat
  hour :: nat
  minute :: nat
  second :: nat
  microsecond :: nat

record env =
  re_search :: "string \<Rightarrow> string \<Rightarrow> exn + bool"
  re_findall :: "string \<Rightarrow> bool \<Rightarrow> pyval \<Rightarrow> exn + string list"
  json_dumps :: "nat option \<Rightarrow> pyval \<Rightarrow> string"
  json_loads :: "string \<Rightarrow> exn + pyval"
  now :: "nat \<Rightarrow> datetime"
  current_timestamp :: string

text \<open>\<^verbatim>\<open>dt.strftime('%Y%m%d_%H%M%S')\<close>; the C library prints the year without padding.\<close>

definition strftime_id :: "datetime \<Rightarrow> string" where
  "strftime_id dt =
     str_of_nat (year dt) @ zero_pad 2 (month dt) @ zero_pad 2 (day dt) @ ''_'' @
     zero_pad 2 (hour dt) @ zero_pad 2 (minute dt) @ zero_pad 2 (second dt)"

text \<open>\<^verbatim>\<open>dt.isoformat()\<close>: the microseconds are printed only when they are not zero.\<close>

definition isoformat :: "datetime \<Rightarrow> string" where
  "isoformat dt =
     zero_pad 4 (year dt) @ ''-'' @ zero_pad 2 (month dt) @ ''-'' @ zero_pad 2 (day dt) @ ''T'' @
     zero_pad 2 (hour dt) @ '':'' @ zero_pad 2 (minute dt) @ '':'' @ zero_pad 2 (second dt) @
     (if microsecond dt = 0 then [] else ''.'' @ zero_pad 6 (microsecond dt))"

section \<open>Condition matcher\<close>

text \<open>
  \<^verbatim>\<open>re.match(r"(\w+)\s+LIKE\s+'([^']+)'", condition)\<close>, the two groups or \<open>None\<close>. The
  match is anchored at the start of the string and need not reach its end. Each repetition
  is followed by a character outside its class, so the greedy match is the only one
  and the pattern is read from left to right without backtracking.
\<close>

definition re_match_like :: "string \<Rightarrow> (string \<times> string) option" where
  "re_match_like s =
     (let field = takeWhile is_word s;
          r1 = dropWhile is_word s;
          r2 = dropWhile is_space r1
      in if field = [] \<or> length r2 = length r1 \<or> \<not> startswith ''LIKE'' r2 then None
         else
           let r3 = drop 4 r2;
               r4 = dropWhile is_space r3
           in if length r4 = length r3 then None
              else (case r4 of
                      [] \<Rightarrow> None
                    | q # r5 \<Rightarrow>
                        let pattern = takeWhile (\<lambda>c. c \<noteq> CHR 0x27) r5;
                            r6 = dropWhile (\<lambda>c. c \<noteq> CHR 0x27) r5
                        in if q \<noteq> CHR 0x27 \<or> pattern = [] \<or> r6 = [] then None
                           else Some (field, pattern)))"

text \<open>\<^verbatim>\<open>re.match(r"(\w+)\s+IN\s+\(([^)]+)\)", condition)\<close>, read the same way.\<close>

definition re_match_in :: "string \<Rightarrow> (string \<times> string) option" where
  "re_match_in s =
     (let field = takeWhile is_word s;
          r1 = dropWhile is_word s;
          r2 = dropWhile is_space r1
      in if field = [] \<or> length r2 = length r1 \<or> \<not> startswith ''IN'' r2 then None
         else
           let r3 = drop 2 r2;
               r4 = dropWhile is_space r3
           in if length r4 = length r3 then None
              else (case r4 of
                      [] \<Rightarrow> None
                    | q # r5 \<Rightarrow>
                        let vals = takeWhile (\<lambda>c. c \<noteq> CHR '')'') r5;
                            r6 = dropWhile (\<lambda>c. c \<noteq> CHR '')'') r5
                        in if q \<noteq> CHR ''('' \<or> vals = [] \<or> r6 = [] then None
                           else Some (field, vals)))"

text \<open>The allowed values of an \<^verbatim>\<open>IN\<close> condition: the text between the parentheses is
  split at the commas; each piece loses its surrounding white space, then its surrounding
  quotes of either kind.\<close>

definition allowed_values_of :: "string \<Rightarrow> string list" where
  "allowed_values_of vals =
     map (\<lambda>v. strip_chars [CHR 0x27, CHR 0x22] (strip v)) (split_on (CHR '','') vals)"

text \<open>
  The body of the loop of \<open>match_conditions\<close> for one condition: \<open>Inr False\<close> is its
  \<^verbatim>\<open>return False\<close>, \<open>Inr True\<close> is falling through to the next condition, and \<open>Inl\<close> is
  the exception of \<^verbatim>\<open>.groups()\<close> on the \<open>None\<close> of a failed \<^verbatim>\<open>re.match\<close> (or one raised by
  \<^verbatim>\<open>re.search\<close>). The test for \<^verbatim>\<open>LIKE\<close> comes first and both tests are substring tests; a
  condition that holds neither word falls through.
  In \<^verbatim>\<open>field_value not in allowed_values\<close> the allowed values are strings, and a value
  equals a string only when it is that string.
\<close>

definition check_condition :: "env \<Rightarrow> string \<Rightarrow> pydict \<Rightarrow> exn + bool" where
  "check_condition E condition data =
     (if str_in ''LIKE'' condition then
        (case re_match_like condition of
           None \<Rightarrow> Inl (no_attribute PNone ''groups'')
         | Some (field, pattern) \<Rightarrow>
             let field_value = lower (py_str (dict_get data field (PStr [])));
                 pattern' = lower (replace_char (CHR ''%'') ''.*'' pattern)
             in re_search E pattern' field_value)
      else if str_in ''IN'' condition then
        (case re_match_in condition of
           None \<Rightarrow> Inl (no_attribute PNone ''groups'')
         | Some (field, vals) \<Rightarrow>
             let field_value = dict_get data field PNone;
                 allowed_values = allowed_values_of vals
             in Inr (field_value \<in> set (map PStr allowed_values)))
      else Inr True)"

fun match_conditions :: "env \<Rightarrow> string list \<Rightarrow> pydict \<Rightarrow> exn + bool" where
  "match_conditions E [] data = Inr True"
| "match_conditions E (condition # conditions) data =
     (case check_condition E condition data of
        Inl e \<Rightarrow> Inl e
      | Inr False \<Rightarrow> Inr False
      | Inr True \<Rightarrow> match_conditions E conditions data)"

section \<open>Parameter resolver\<close>

text \<open>The inner loop \<^verbatim>\<open>for part in parts: resolved_value = resolved_value.get(part, "")\<close>.
  Only a dictionary has a \<^verbatim>\<open>get\<close>; on any other value the call raises.\<close>

fun walk_parts :: "pyval \<Rightarrow> string list \<Rightarrow> exn + pyval" where
  "walk_parts resolved_value [] = Inr resolved_value"
| "walk_parts resolved_value (part # parts) =
     (case resolved_value of
        PDict d \<Rightarrow> walk_parts (dict_get d part (PStr [])) parts
      | _ \<Rightarrow> Inl (no_attribute resolved_value ''get''))"

text \<open>One parameter value. \<^verbatim>\<open>value[2:-1]\<close> drops the first two characters and the last
  one, whatever the last one is.\<close>

definition resolve_value :: "pyval \<Rightarrow> pydict \<Rightarrow> exn + pyval" where
  "resolve_value v context =
     (case v of
        PStr s \<Rightarrow>
          if startswith ''${'' s then
            let var_name = butlast (drop 2 s)
            in if CHR ''.'' \<in> set var_name
               then walk_parts (PDict context) (split_on (CHR ''.'') var_name)
               else Inr (dict_get context var_name v)
          else Inr v
      | _ \<Rightarrow> Inr v)"

fun resolve_loop :: "pydict \<Rightarrow> pydict \<Rightarrow> pydict \<Rightarrow> exn + pydict" where
  "resolve_loop [] context resolved = Inr resolved"
| "resolve_loop ((key, v) # rest) context resolved =
     (case resolve_value v context of
        Inl e \<Rightarrow> Inl e
      | Inr r \<Rightarrow> resolve_loop rest context (dict_set resolved key r))"

definition resolve_parameters :: "pydict \<Rightarrow> pydict \<Rightarrow> exn + pydict" where
  "resolve_parameters params context = resolve_loop params context []"

section \<open>Tool dispatcher\<close>

subsection \<open>Entity extraction\<close>

definition bsl :: string where
  "bsl = [CHR 0x5C]"

definition date_slash :: string where
  "date_slash = bsl @ ''d{1,2}/'' @ bsl @ ''d{1,2}/'' @ bsl @ ''d{4}''"

text \<open>\<^verbatim>\<open>for pattern in patterns: found.extend(re.findall(pattern, content))\<close>\<close>

fun findall_each :: "env \<Rightarrow> string list \<Rightarrow> pyval \<Rightarrow> string list \<Rightarrow> exn + string list" where
  "findall_each E [] content found = Inr found"
| "findall_each E (pattern # patterns) content found =
     (case re_findall E pattern False content of
        Inl e \<Rightarrow> Inl e
      | Inr ms \<Rightarrow> findall_each E patterns content (found @ ms))"

definition extract_dates :: "env \<Rightarrow> pyval \<Rightarrow> exn + string list" where
  "extract_dates E content =
     findall_each E
       [date_slash,
        bsl @ ''d{4}-'' @ bsl @ ''d{1,2}-'' @ bsl @ ''d{1,2}'',
        bsl @ ''d{1,2}-'' @ bsl @ ''d{1,2}-'' @ bsl @ ''d{4}'']
       content []"

definition extract_amounts :: "env \<Rightarrow> pyval \<Rightarrow> exn + string list" where
  "extract_amounts E content =
     re_findall E (bsl @ ''$['' @ bsl @ ''d,]+'' @ bsl @ ''.?'' @ bsl @ ''d*'') False content"

definition extract_vehicles :: "env \<Rightarrow> pyval \<Rightarrow> exn + string list" where
  "extract_vehicles E content =
     findall_each E
       [''License:'' @ bsl @ ''s*([A-Z0-9]+)'',
        ''VIN:'' @ bsl @ ''s*([A-Z0-9]+)'',
        bsl @ ''d{4}'' @ bsl @ ''s+'' @ bsl @ ''w+'']
       content []"

definition extract_deadlines :: "env \<Rightarrow> pyval \<Rightarrow> exn + string list" where
  "extract_deadlines E content =
     (case re_findall E (''(?:by|before|deadline|due)'' @ bsl @ ''s+('' @ date_slash @ '')'') True content of
        Inl e \<Rightarrow> Inl e
      | Inr dates \<Rightarrow>
          (case re_findall E (''('' @ date_slash @ '')'') False content of
             Inl e \<Rightarrow> Inl e
           | Inr dmv_deadline \<Rightarrow> Inr (dates @ dmv_deadline)))"

text \<open>\<^verbatim>\<open>k in container\<close> for a string \<open>k\<close>: membership in a list, substring of a string, key
  of a dictionary; any other value is not a container.\<close>

definition py_contains :: "pyval \<Rightarrow> string \<Rightarrow> exn + bool" where
  "py_contains container k =
     (case container of
        PList xs \<Rightarrow> Inr (PStr k \<in> set xs)
      | PStr s \<Rightarrow> Inr (str_in k s)
      | PDict d \<Rightarrow> Inr (k \<in> set (map fst d))
      | _ \<Rightarrow> Inl (TypeError (''argument of type '' @ [CHR 0x27] @ type_name container @ ''' is not iterable'')))"

text \<open>\<^verbatim>\<open>{k: v for k, v in entities.items() if k in entity_types}\<close>\<close>

fun filter_entities :: "(string \<times> string list) list \<Rightarrow> pyval \<Rightarrow> exn + pydict" where
  "filter_entities [] entity_types = Inr []"
| "filter_entities ((k, v) # rest) entity_types =
     (case py_contains entity_types k of
        Inl e \<Rightarrow> Inl e
      | Inr keep \<Rightarrow>
          (case filter_entities rest entity_types of
             Inl e \<Rightarrow> Inl e
           | Inr kept \<Rightarrow> Inr (if keep then (k, PList (map PStr v)) # kept else kept)))"

subsection \<open>Urgency classification\<close>

text \<open>What \<^verbatim>\<open>for keyword in keywords\<close> iterates over: the elements of a list, the
  characters of a string, the keys of a dictionary.\<close>

definition py_iter :: "pyval \<Rightarrow> exn + pyval list" where
  "py_iter v =
     (case v of
        PList xs \<Rightarrow> Inr xs
      | PStr s \<Rightarrow> Inr (map (\<lambda>c. PStr [c]) s)
      | PDict d \<Rightarrow> Inr (map (\<lambda>kv. PStr (fst kv)) d)
      | _ \<Rightarrow> Inl (TypeError ([CHR 0x27] @ type_name v @ ''' object is not iterable'')))"

text \<open>The loop \<^verbatim>\<open>if keyword.lower() in content.lower(): urgency_score += 1\<close>.\<close>

fun count_keywords :: "pyval list \<Rightarrow> pyval \<Rightarrow> int \<Rightarrow> exn + int" where
  "count_keywords [] content urgency_score = Inr urgency_score"
| "count_keywords (keyword # keywords) content urgency_score =
     (case keyword of
        PStr k \<Rightarrow>
          (case content of
             PStr c \<Rightarrow>
               count_keywords keywords content
                 (if str_in (lower k) (lower c) then urgency_score + 1 else urgency_score)
           | _ \<Rightarrow> Inl (no_attribute content ''lower''))
      | _ \<Rightarrow> Inl (no_attribute keyword ''lower''))"

definition urgency_level_of :: "int \<Rightarrow> string" where
  "urgency_level_of urgency_score =
     (if urgency_score \<ge> 2 then ''urgent''
      else if urgency_score \<ge> 1 then ''high''
      else ''normal'')"

subsection \<open>The tools\<close>

definition summary_text :: string where
  "summary_text = ''DMV notice regarding vehicle registration suspension for 2004 Volvo. Insurance proof required by 03/27/2025 to avoid suspension. $14 fee for reinstatement.''"

definition execute_ai_tool :: "env \<Rightarrow> string \<Rightarrow> pydict \<Rightarrow> pydict \<Rightarrow> exn + pyval" where
  "execute_ai_tool E tool_name params context =
     (if tool_name = ''ai_summarize'' then
        Inr (PDict [(''summary'', PStr summary_text)])
      else if tool_name = ''ai_extract_entities'' then
        (let content = dict_get params ''content'' (PStr []);
             entity_types = dict_get params ''types''
                              (PList [PStr ''dates'', PStr ''amounts'', PStr ''companies''])
         in case extract_dates E content of Inl e \<Rightarrow> Inl e | Inr dates \<Rightarrow>
            (case extract_amounts E content of Inl e \<Rightarrow> Inl e | Inr amounts \<Rightarrow>
            (case extract_vehicles E content of Inl e \<Rightarrow> Inl e | Inr vehicles \<Rightarrow>
            (case extract_deadlines E content of Inl e \<Rightarrow> Inl e | Inr deadlines \<Rightarrow>
            (case filter_entities
                    [(''dates'', dates), (''amounts'', amounts),
                     (''vehicles'', vehicles), (''deadlines'', deadlines)] entity_types of
               Inl e \<Rightarrow> Inl e
             | Inr entities \<Rightarrow> Inr (PDict [(''entities'', PDict entities)]))))))
      else if tool_name = ''ai_classify_urgency'' then
        (let content = dict_get params ''content'' (PStr []);
             keywords = dict_get params ''keywords'' (PList [])
         in case py_iter keywords of
              Inl e \<Rightarrow> Inl e
            | Inr ks \<Rightarrow>
                (case count_keywords ks content 0 of
                   Inl e \<Rightarrow> Inl e
                 | Inr urgency_score \<Rightarrow>
                     Inr (PDict [(''urgency_level'', PStr (urgency_level_of urgency_score)),
                                 (''urgency_score'', PInt urgency_score)])))
      else Inl (ValueError (''Unknown AI tool: '' @ tool_name)))"

definition execute_crm_tool :: "string \<Rightarrow> pydict \<Rightarrow> pydict \<Rightarrow> exn + pyval" where
  "execute_crm_tool tool_name params context =
     (if tool_name = ''crm_update_communication'' then
        Inr (PDict [(''success'', PBool True), (''message'', PStr ''Communication updated''),
                    (''communication_id'', dict_get params ''communication_id'' PNone)])
      else if tool_name = ''crm_create_task'' then
        Inr (PDict [(''task_id'', PInt 123), (''success'', PBool True),
                    (''title'', dict_get params ''title'' (PStr ''New Task''))])
      else Inl (ValueError (''Unknown CRM tool: '' @ tool_name)))"

definition execute_vision_tool :: "string \<Rightarrow> pydict \<Rightarrow> pydict \<Rightarrow> exn + pyval" where
  "execute_vision_tool tool_name params context =
     (if tool_name = ''vision_extract_invoice'' then
        Inr (PDict [(''extracted_data'', PDict []), (''success'', PBool True)])
      else Inl (ValueError (''Unknown vision tool: '' @ tool_name)))"

definition execute_quickbooks_tool :: "string \<Rightarrow> pydict \<Rightarrow> pydict \<Rightarrow> exn + pyval" where
  "execute_quickbooks_tool tool_name params context =
     (if tool_name = ''quickbooks_create_vendor'' then
        Inr (PDict [(''vendor_id'', PInt 456), (''success'', PBool True)])
      else Inl (ValueError (''Unknown QuickBooks tool: '' @ tool_name)))"

text \<open>The parameters are resolved first, so an exception of the resolver is raised by
  \<open>execute_tool\<close> whatever the tool is.\<close>

definition execute_tool :: "env \<Rightarrow> string \<Rightarrow> pydict \<Rightarrow> pydict \<Rightarrow> exn + pyval" where
  "execute_tool E tool_name params context =
     (case resolve_parameters params context of
        Inl e \<Rightarrow> Inl e
      | Inr resolved_params \<Rightarrow>
          if startswith ''ai_'' tool_name then execute_ai_tool E tool_name resolved_params context
          else if startswith ''crm_'' tool_name then execute_crm_tool tool_name resolved_params context
          else if startswith ''vision_'' tool_name then execute_vision_tool tool_name resolved_params context
          else if startswith ''quickbooks_'' tool_name then
            execute_quickbooks_tool tool_name resolved_params context
          else if tool_name = ''workflow_log'' then
            Inr (PDict [(''logged'', PBool True), (''message'', PStr ''Workflow completion logged'')])
          else Inl (ValueError (''Unknown tool: '' @ tool_name)))"

section \<open>Workflow executor\<close>

text \<open>
  A step of a workflow definition, as \<open>execute_workflow\<close> reads it:
  \<^verbatim>\<open>step.get('name')\<close>, \<^verbatim>\<open>step.get('tool')\<close>, \<^verbatim>\<open>step.get('params', {})\<close> and
  \<^verbatim>\<open>step.get('conditions', [])\<close>.
\<close>

record step =
  name :: string
  tool :: string
  params :: pydict
  conditions :: "string list"

text \<open>The dataclasses \<^verbatim>\<open>WorkflowResult\<close> and \<^verbatim>\<open>WorkflowExecution\<close>.\<close>

record WorkflowResult =
  success :: bool
  step_name :: string
  tool_name :: string
  result :: pyval
  error :: "string option"
  timestamp :: string

record WorkflowExecution =
  workflow_name :: string
  trigger_event :: string
  trigger_data :: pydict
  execution_id :: string
  status :: string
  steps_completed :: "WorkflowResult list"
  started_at :: string
  completed_at :: "string option"

text \<open>A row of the table \<^verbatim>\<open>workflow_executions\<close>, whose primary key is the execution id;
  the trigger data and the step results are stored as JSON text.\<close>

record db_row =
  row_workflow_name :: string
  row_trigger_event :: string
  row_trigger_data :: string
  row_status :: string
  row_started_at :: string
  row_completed_at :: "string option"
  row_steps_completed :: string
  row_created_at :: string

text \<open>
  The state of the process: the workflow table (for each name the steps of its
  definition, \<^verbatim>\<open>workflow_def.get('steps', [])\<close>), the table of executions held in memory
  and the history database.
\<close>

record engine =
  workflows :: "string \<rightharpoonup> step list"
  executions :: "string \<rightharpoonup> WorkflowExecution"
  history :: "string \<rightharpoonup> db_row"

text \<open>\<^verbatim>\<open>dataclasses.asdict(step)\<close>\<close>

definition asdict :: "WorkflowResult \<Rightarrow> pyval" where
  "asdict r =
     PDict [(''success'', PBool (success r)),
            (''step_name'', PStr (step_name r)),
            (''tool_name'', PStr (tool_name r)),
            (''result'', result r),
            (''error'', (case error r of None \<Rightarrow> PNone | Some m \<Rightarrow> PStr m)),
            (''timestamp'', PStr (timestamp r))]"

text \<open>\<^verbatim>\<open>INSERT OR REPLACE\<close>: the row of this execution id is written, replacing any
  earlier one.\<close>

definition save_execution ::
  "env \<Rightarrow> WorkflowExecution \<Rightarrow> (string \<rightharpoonup> db_row) \<Rightarrow> (string \<rightharpoonup> db_row)" where
  "save_execution E execution table =
     table(execution_id execution \<mapsto>
       \<lparr>row_workflow_name = workflow_name execution,
        row_trigger_event = trigger_event execution,
        row_trigger_data = json_dumps E None (PDict (trigger_data execution)),
        row_status = status execution,
        row_started_at = started_at execution,
        row_completed_at = completed_at execution,
        row_steps_completed = json_dumps E None (PList (map asdict (steps_completed execution))),
        row_created_at = current_timestamp E\<rparr>)"

text \<open>
  The state of the loop over the steps: the step results appended so far
  (\<^verbatim>\<open>execution.steps_completed\<close>), the results by step name
  (\<^verbatim>\<open>context["execution_results"]\<close>) and how many times the clock has been read.
\<close>

record run_state =
  results :: "WorkflowResult list"
  execution_results :: pydict
  tick :: nat

definition mk_context :: "pydict \<Rightarrow> pydict \<Rightarrow> pydict" where
  "mk_context td er = [(''trigger_data'', PDict td), (''execution_results'', PDict er)]"

definition step_ok :: "env \<Rightarrow> step \<Rightarrow> pyval \<Rightarrow> run_state \<Rightarrow> run_state" where
  "step_ok E s r st =
     st\<lparr>results := results st @
           [\<lparr>success = True, step_name = name s, tool_name = tool s, result = r,
             error = None, timestamp = isoformat (now E (tick st))\<rparr>],
        execution_results := dict_set (execution_results st) (name s) r,
        tick := Suc (tick st)\<rparr>"

definition step_failed :: "env \<Rightarrow> step \<Rightarrow> exn \<Rightarrow> run_state \<Rightarrow> run_state" where
  "step_failed E s e st =
     st\<lparr>results := results st @
           [\<lparr>success = False, step_name = name s, tool_name = tool s, result = PNone,
             error = Some (exn_str e), timestamp = isoformat (now E (tick st))\<rparr>],
        tick := Suc (tick st)\<rparr>"

text \<open>
  The loop \<^verbatim>\<open>for step in workflow_def.get('steps', [])\<close>. The conditions are matched
  against the context (not against the trigger data) and outside the inner
  \<^verbatim>\<open>try\<close>: an exception of the matcher leaves the loop, with the results appended so far.
  An exception of the tool is caught by the inner \<^verbatim>\<open>try\<close>.
\<close>

fun run_steps :: "env \<Rightarrow> pydict \<Rightarrow> step list \<Rightarrow> run_state \<Rightarrow> exn option \<times> run_state" where
  "run_steps E td [] st = (None, st)"
| "run_steps E td (s # ss) st =
     (let context = mk_context td (execution_results st)
      in case (if conditions s = [] then Inr True
               else match_conditions E (conditions s) context) of
           Inl e \<Rightarrow> (Some e, st)
         | Inr False \<Rightarrow> run_steps E td ss st
         | Inr True \<Rightarrow>
             (case execute_tool E (tool s) (params s) context of
                Inr r \<Rightarrow> run_steps E td ss (step_ok E s r st)
              | Inl e \<Rightarrow> run_steps E td ss (step_failed E s e st)))"

text \<open>
  \<open>execute_workflow\<close> returns the finished execution and the new state of the process.
  The execution registered in \<^verbatim>\<open>self.executions\<close> at the start is the object that the
  run then updates, so the table holds the finished execution afterwards. A workflow
  name that is not in the table raises \<^verbatim>\<open>KeyError\<close> inside the outer \<^verbatim>\<open>try\<close>; the
  handler prints the exception and keeps no trace of it in the execution.
\<close>

definition execute_workflow ::
  "env \<Rightarrow> engine \<Rightarrow> string \<Rightarrow> string \<Rightarrow> pydict \<Rightarrow> WorkflowExecution \<times> engine" where
  "execute_workflow E eng wname event td =
     (let eid = wname @ ''_'' @ strftime_id (now E 0);
          execution =
            \<lparr>workflow_name = wname, trigger_event = event, trigger_data = td,
             execution_id = eid, status = ''running'', steps_completed = [],
             started_at = isoformat (now E 1), completed_at = None\<rparr>;
          finished =
            (case workflows eng wname of
               None \<Rightarrow>
                 execution\<lparr>status := ''failed'', completed_at := Some (isoformat (now E 2))\<rparr>
             | Some ss \<Rightarrow>
                 (case run_steps E td ss \<lparr>results = [], execution_results = [], tick = 2\<rparr> of
                    (None, st) \<Rightarrow>
                      execution\<lparr>status := ''completed'', steps_completed := results st,
                                completed_at := Some (isoformat (now E (tick st)))\<rparr>
                  | (Some e, st) \<Rightarrow>
                      execution\<lparr>status := ''failed'', steps_completed := results st,
                                completed_at := Some (isoformat (now E (tick st)))\<rparr>))
      in (finished,
          eng\<lparr>executions := (executions eng)(eid \<mapsto> finished),
              history := save_execution E finished (history eng)\<rparr>))"

section \<open>The tools offered to the caller\<close>

text \<open>
  \<open>trigger_workflow\<close> returns the JSON text of a dictionary. Nothing that
  \<open>execute_workflow\<close> does on the values of the model raises, so the \<^verbatim>\<open>except\<close> branch of
  \<open>trigger_workflow\<close> (a failure of the database) has no counterpart here.
\<close>

definition trigger_result :: "WorkflowExecution \<Rightarrow> string \<Rightarrow> pyval" where
  "trigger_result execution wname =
     PDict [(''success'', PBool True),
            (''execution_id'', PStr (execution_id execution)),
            (''status'', PStr (status execution)),
            (''steps_completed'', PInt (int (length (steps_completed execution)))),
            (''workflow_name'', PStr wname)]"

definition trigger_workflow ::
  "env \<Rightarrow> engine \<Rightarrow> string \<Rightarrow> string \<Rightarrow> pydict \<Rightarrow> string \<times> engine" where
  "trigger_workflow E eng wname event td =
     (case execute_workflow E eng wname event td of
        (execution, eng') \<Rightarrow> (json_dumps E (Some 2) (trigger_result execution wname), eng'))"

text \<open>
  \<open>get_workflow_execution\<close>: the dictionary that is printed as JSON. The table in memory
  is asked first, the database only for an id that is not there;
  \<^verbatim>\<open>dict(zip(columns, row))\<close> has the columns in the order of the table.
\<close>

definition row_dict :: "string \<Rightarrow> db_row \<Rightarrow> pydict" where
  "row_dict eid row =
     [(''execution_id'', PStr eid),
      (''workflow_name'', PStr (row_workflow_name row)),
      (''trigger_event'', PStr (row_trigger_event row)),
      (''trigger_data'', PStr (row_trigger_data row)),
      (''status'', PStr (row_status row)),
      (''started_at'', PStr (row_started_at row)),
      (''completed_at'', (case row_completed_at row of None \<Rightarrow> PNone | Some t \<Rightarrow> PStr t)),
      (''steps_completed'', PStr (row_steps_completed row)),
      (''created_at'', PStr (row_created_at row))]"

definition get_workflow_execution_result :: "env \<Rightarrow> engine \<Rightarrow> string \<Rightarrow> pyval" where
  "get_workflow_execution_result E eng eid =
     (case executions eng eid of
        Some execution \<Rightarrow>
          PDict [(''execution_id'', PStr (execution_id execution)),
                 (''workflow_name'', PStr (workflow_name execution)),
                 (''status'', PStr (status execution)),
                 (''started_at'', PStr (started_at execution)),
                 (''completed_at'',
                    (case completed_at execution of None \<Rightarrow> PNone | Some t \<Rightarrow> PStr t)),
                 (''steps'', PList (map asdict (steps_completed execution)))]
      | None \<Rightarrow>
          (case history eng eid of
             Some row \<Rightarrow>
               (case json_loads E (row_steps_completed row) of
                  Inl e \<Rightarrow> PDict [(''error'', PStr (exn_str e))]
                | Inr loaded \<Rightarrow> PDict (dict_set (row_dict eid row) ''steps_completed'' loaded))
           | None \<Rightarrow> PDict [(''error'', PStr ''Execution not found'')]))"

definition get_workflow_execution :: "env \<Rightarrow> engine \<Rightarrow> string \<Rightarrow> string" where
  "get_workflow_execution E eng eid =
     json_dumps E (Some 2) (get_workflow_execution_result E eng eid)"

section \<open>An example environment\<close>

text \<open>
  The theorems below hold for every environment. To run the engine on concrete inputs
  an environment is needed; this one is small and computes.
\<close>

subsection \<open>Searching for a pattern of ordinary characters and \<^verbatim>\<open>.*\<close>\<close>

text \<open>
  A \<^verbatim>\<open>LIKE\<close> pattern without regular-expression metacharacters becomes, once \<^verbatim>\<open>%\<close> is
  replaced, a sequence of ordinary characters and \<^verbatim>\<open>.*\<close>. On such a pattern
  \<open>search_simple\<close> is \<^verbatim>\<open>re.search\<close>: the pattern may match anywhere in the subject, and
  \<^verbatim>\<open>.\<close> matches every character but the newline. Any other pattern is refused here.
\<close>

datatype tok = Lit char | Wild

definition is_meta :: "char \<Rightarrow> bool" where
  "is_meta c = (c \<in> set (''.^$*+?{}[]|()'' @ bsl))"

fun tokens :: "string \<Rightarrow> tok list option" where
  "tokens [] = Some []"
| "tokens [c] = (if is_meta c then None else Some [Lit c])"
| "tokens (c # d # cs) =
     (if c = CHR ''.'' \<and> d = CHR ''*'' then map_option (\<lambda>ts. Wild # ts) (tokens cs)
      else if is_meta c then None
      else map_option (\<lambda>ts. Lit c # ts) (tokens (d # cs)))"

fun match_here :: "tok list \<Rightarrow> string \<Rightarrow> bool" where
  "match_here [] s = True"
| "match_here (Lit c # ts) [] = False"
| "match_here (Lit c # ts) (x # xs) = (x = c \<and> match_here ts xs)"
| "match_here (Wild # ts) [] = match_here ts []"
| "match_here (Wild # ts) (x # xs) =
     (match_here ts (x # xs) \<or> (x \<noteq> CHR 0x0A \<and> match_here (Wild # ts) xs))"

fun match_anywhere :: "tok list \<Rightarrow> string \<Rightarrow> bool" where
  "match_anywhere ts [] = match_here ts []"
| "match_anywhere ts (x # xs) = (match_here ts (x # xs) \<or> match_anywhere ts xs)"

definition search_simple :: "string \<Rightarrow> string \<Rightarrow> exn + bool" where
  "search_simple pattern s =
     (case tokens pattern of
        None \<Rightarrow> Inl (ReError ''pattern outside the example matcher'')
      | Some ts \<Rightarrow> Inr (match_anywhere ts s))"

text \<open>The example \<^verbatim>\<open>findall\<close> finds nothing in a string and refuses any other subject, as
  the library does.\<close>

definition findall_none :: "string \<Rightarrow> bool \<Rightarrow> pyval \<Rightarrow> exn + string list" where
  "findall_none pattern ignorecase subject =
     (case subject of
        PStr s \<Rightarrow> Inr []
      | _ \<Rightarrow> Inl (TypeError ''expected string or bytes-like object''))"

subsection \<open>Printing and reading JSON\<close>

definition json_char :: "char \<Rightarrow> string" where
  "json_char c =
     (let n = (of_char c :: nat) in
        if c = CHR 0x22 \<or> c = CHR 0x5C then [CHR 0x5C, c]
        else if n = 10 then bsl @ ''n''
        else if n = 13 then bsl @ ''r''
        else if n = 9 then bsl @ ''t''
        else if n < 32 \<or> 127 \<le> n then bsl @ ''u00'' @ [hex_char (n div 16), hex_char (n mod 16)]
        else [c])"

definition json_string :: "string \<Rightarrow> string" where
  "json_string s = [CHR 0x22] @ concat (map json_char s) @ [CHR 0x22]"

text \<open>\<^verbatim>\<open>json.dumps(v)\<close> with the default separators; the indentation is not printed.\<close>

fun json_text :: "pyval \<Rightarrow> string" where
  "json_text PNone = ''null''"
| "json_text (PBool b) = (if b then ''true'' else ''false'')"
| "json_text (PInt i) = str_of_int i"
| "json_text (PStr s) = json_string s"
| "json_text (PList xs) = ''['' @ join '', '' (map json_text xs) @ '']''"
| "json_text (PDict d) =
     ''{'' @ join '', '' (map (\<lambda>kv. json_string (fst kv) @ '': '' @ json_text (snd kv)) d) @ ''}''"

definition skip_ws :: "string \<Rightarrow> string" where
  "skip_ws s = dropWhile (\<lambda>c. c \<in> set [CHR '' '', CHR 0x09, CHR 0x0A, CHR 0x0D]) s"

definition hex_val :: "char \<Rightarrow> nat" where
  "hex_val c = (let n = (of_char c :: nat) in if n < 58 then n - 48 else if n < 71 then n - 55 else n - 87)"

text \<open>The characters of a string after its opening quote, up to the closing quote.\<close>

fun read_string :: "string \<Rightarrow> (string \<times> string) option" where
  "read_string [] = None"
| "read_string (c # cs) =
     (if c = CHR 0x22 then Some ([], cs)
      else if c = CHR 0x5C then
        (case cs of
           [] \<Rightarrow> None
         | e # r \<Rightarrow>
             if e = CHR ''u'' then
               (case r of
                  a # b # h # l # r' \<Rightarrow>
                    map_option (\<lambda>p. (char_of (16 * hex_val h + hex_val l) # fst p, snd p)) (read_string r')
                | _ \<Rightarrow> None)
             else
               map_option
                 (\<lambda>p. ((if e = CHR ''n'' then CHR 0x0A else if e = CHR ''r'' then CHR 0x0D
                         else if e = CHR ''t'' then CHR 0x09 else e) # fst p, snd p))
                 (read_string r))
      else map_option (\<lambda>p. (c # fst p, snd p)) (read_string cs))"

definition read_nat :: "string \<Rightarrow> nat" where
  "read_nat ds = foldl (\<lambda>n c. 10 * n + (of_char c - 48)) 0 ds"

text \<open>The reader takes fuel, one unit for each nested call; \<open>loads_simple\<close> gives it more
  than the length of the text.\<close>

fun read_value :: "nat \<Rightarrow> string \<Rightarrow> (pyval \<times> string) option"
and read_elems :: "nat \<Rightarrow> string \<Rightarrow> (pyval list \<times> string) option"
and read_members :: "nat \<Rightarrow> string \<Rightarrow> (pydict \<times> string) option" where
  "read_value 0 s = None"
| "read_value (Suc n) s =
     (case skip_ws s of
        [] \<Rightarrow> None
      | c # cs \<Rightarrow>
          if c = CHR ''['' then
            (case skip_ws cs of
               [] \<Rightarrow> None
             | d # r \<Rightarrow>
                 if d = CHR '']'' then Some (PList [], r)
                 else map_option (\<lambda>p. (PList (fst p), snd p)) (read_elems n cs))
          else if c = CHR ''{'' then
            (case skip_ws cs of
               [] \<Rightarrow> None
             | d # r \<Rightarrow>
                 if d = CHR ''}'' then Some (PDict [], r)
                 else map_option (\<lambda>p. (PDict (fst p), snd p)) (read_members n cs))
          else if c = CHR 0x22 then map_option (\<lambda>p. (PStr (fst p), snd p)) (read_string cs)
          else if startswith ''null'' (c # cs) then Some (PNone, drop 3 cs)
          else if startswith ''true'' (c # cs) then Some (PBool True, drop 3 cs)
          else if startswith ''false'' (c # cs) then Some (PBool False, drop 4 cs)
          else if c = CHR ''-'' \<and> takeWhile is_digit cs \<noteq> [] then
            Some (PInt (- int (read_nat (takeWhile is_digit cs))), dropWhile is_digit cs)
          else if is_digit c then
            Some (PInt (int (read_nat (takeWhile is_digit (c # cs)))), dropWhile is_digit cs)
          else None)"
| "read_elems 0 s = None"
| "read_elems (Suc n) s =
     (case read_value n s of
        None \<Rightarrow> None
      | Some (v, r) \<Rightarrow>
          (case skip_ws r of
             [] \<Rightarrow> None
           | c # r' \<Rightarrow>
               if c = CHR '']'' then Some ([v], r')
               else if c = CHR '','' then map_option (\<lambda>p. (v # fst p, snd p)) (read_elems n r')
               else None))"
| "read_members 0 s = None"
| "read_members (Suc n) s =
     (case skip_ws s of
        [] \<Rightarrow> None
      | q # ks \<Rightarrow>
          if q \<noteq> CHR 0x22 then None
          else
            (case read_string ks of
               None \<Rightarrow> None
             | Some (k, r) \<Rightarrow>
                 (case skip_ws r of
                    [] \<Rightarrow> None
                  | c # r1 \<Rightarrow>
                      if c \<noteq> CHR '':'' then None
                      else
                        (case read_value n r1 of
                           None \<Rightarrow> None
                         | Some (v, r2) \<Rightarrow>
                             (case skip_ws r2 of
                                [] \<Rightarrow> None
                              | d # r3 \<Rightarrow>
                                  if d = CHR ''}'' then Some ([(k, v)], r3)
                                  else if d = CHR '','' then
                                    map_option (\<lambda>p. ((k, dict_get (fst p) k v) # AList.delete k (fst p), snd p))
                                      (read_members n r3)
                                  else None)))))"

definition loads_simple :: "string \<Rightarrow> exn + pyval" where
  "loads_simple s =
     (case read_value (Suc (length s)) s of
        None \<Rightarrow> Inl (JSONDecodeError ''Expecting value'')
      | Some (v, r) \<Rightarrow> if skip_ws r = [] then Inr v else Inl (JSONDecodeError ''Extra data''))"

subsection \<open>The clock and the environment\<close>

text \<open>A clock whose readings all fall within one second.\<close>

definition example_now :: "nat \<Rightarrow> datetime" where
  "example_now n =
     \<lparr>year = 2025, month = 3, day = 14, hour = 9, minute = 30, second = 5,
      microsecond = 1000 * n + 7\<rparr>"

definition example_env :: env where
  "example_env =
     \<lparr>re_search = search_simple,
      re_findall = findall_none,
      json_dumps = (\<lambda>indent v. json_text v),
      json_loads = loads_simple,
      now = example_now,
      current_timestamp = ''2025-03-14 16:30:05''\<rparr>"

section \<open>The condition grammar of the specification\<close>




section \<open>An example engine\<close>

text \<open>
  Two workflow definitions to run the engine on. The second step of the first one names
  a tool of no known namespace; the first step of the second one is guarded by a
  condition.
\<close>

definition summarize_step :: step where
  "summarize_step =
     \<lparr>name = ''summarize'', tool = ''ai_summarize'',
      params = [(''content'', PStr ''${trigger_data.content}'')], conditions = []\<rparr>"

definition notify_step :: step where
  "notify_step =
     \<lparr>name = ''notify'', tool = ''email_send'',
      params = [(''to'', PStr ''${trigger_data.sender}'')], conditions = []\<rparr>"

definition log_step :: step where
  "log_step = \<lparr>name = ''log'', tool = ''workflow_log'', params = [], conditions = []\<rparr>"

definition task_step :: step where
  "task_step =
     \<lparr>name = ''create_task'', tool = ''crm_create_task'',
      params = [(''title'', PStr ''Review'')],
      conditions = [''STATUS IN ('open', 'pending')'']\<rparr>"

definition example_engine :: engine where
  "example_engine =
     \<lparr>workflows = [''intake'' \<mapsto> [summarize_step, notify_step, log_step],
                   ''gated'' \<mapsto> [task_step, log_step]],
      executions = Map.empty,
      history = Map.empty\<rparr>"

definition example_trigger_data :: pydict where
  "example_trigger_data =
     [(''content'', PStr ''URGENT: payment overdue''), (''sender'', PStr ''x@y.com'')]"

section \<open>Properties of the parameter resolver\<close>

lemma resolve_single:
  "resolve_parameters [(k, v)] context =
     (case resolve_value v context of Inl e \<Rightarrow> Inl e | Inr r \<Rightarrow> Inr [(k, r)])"
  by (simp add: resolve_parameters_def dict_set_def split: sum.splits)

text \<open>
  Claim C10. A string value that begins with \<^verbatim>\<open>${\<close> is handled as a placeholder whether
  or not it ends with \<^verbatim>\<open>}\<close>: the test is \<^verbatim>\<open>startswith("${")\<close> alone, and the name looked up
  is the value without its first two characters and without its last one. So
  \<^verbatim>\<open>${foo\<close> is looked up under the key \<^verbatim>\<open>fo\<close>; the value itself is only the default of
  that lookup.
\<close>

theorem resolve_placeholder_needs_no_closing_brace:
  assumes "startswith ''${'' s"
  shows "resolve_parameters [(k, PStr s)] context =
           (if CHR ''.'' \<in> set (butlast (drop 2 s))
            then (case walk_parts (PDict context) (split_on (CHR ''.'') (butlast (drop 2 s))) of
                    Inl e \<Rightarrow> Inl e
                  | Inr r \<Rightarrow> Inr [(k, r)])
            else Inr [(k, dict_get context (butlast (drop 2 s)) (PStr s))])"
  using assms by (simp add: resolve_single resolve_value_def)

theorem resolve_placeholder_needs_no_closing_brace_witness:
  "startswith ''${'' ''${foo'' \<and>
   resolve_parameters [(''x'', PStr ''${foo'')] [(''fo'', PInt 3)] = Inr [(''x'', PInt 3)]"
proof -
  have h: "startswith ''${'' ''${foo''" by (simp add: startswith_def)
  show ?thesis
    using h resolve_placeholder_needs_no_closing_brace [OF h, of "''x''" "[(''fo'', PInt 3)]"]
    by (simp add: dict_get_def)
qed

text \<open>
  Claim C2. A dotted placeholder is resolved segment by segment, and a missing segment
  is meant to give the empty string. The walk continues on that empty string: when the
  missing segment is not the last one, the next \<^verbatim>\<open>.get\<close> is called on a string and
  raises \<^verbatim>\<open>AttributeError\<close>. The input below is the parameter
  \<^verbatim>\<open>${trigger_data.nonexistent.deeper}\<close> against trigger data that has no key
  \<^verbatim>\<open>nonexistent\<close>.
\<close>

theorem resolve_missing_inner_segment_raises:
  "resolve_parameters [(''email'', PStr ''${trigger_data.nonexistent.deeper}'')]
     (mk_context [(''sender_identifier'', PStr ''x@y.com'')] [])
   = Inl (no_attribute (PStr []) ''get'')"
  by code_simp

text \<open>When only the last segment is missing, and for a value that is no placeholder,
  the resolver does what the claim says.\<close>

lemma resolve_missing_last_segment:
  "resolve_parameters [(''email'', PStr ''${trigger_data.nonexistent}'')]
     (mk_context [(''sender_identifier'', PStr ''x@y.com'')] [])
   = Inr [(''email'', PStr [])]"
  by code_simp

lemma resolve_literal_unchanged:
  "\<not> (\<exists>s. v = PStr s \<and> startswith ''${'' s) \<Longrightarrow>
   resolve_parameters [(k, v)] context = Inr [(k, v)]"
  by (cases v) (auto simp: resolve_single resolve_value_def)

section \<open>Properties of the urgency classification\<close>





section \<open>Properties of the condition matcher\<close>

subsection \<open>What the two regular expressions accept\<close>









subsection \<open>The predicates of the specification\<close>















section \<open>Properties of the workflow executor\<close>

lemma run_steps_append:
  "run_steps E td (xs @ ys) st =
     (case run_steps E td xs st of
        (None, st') \<Rightarrow> run_steps E td ys st'
      | (Some e, st') \<Rightarrow> (Some e, st'))"
  by (induction xs arbitrary: st) (auto simp: Let_def split: sum.splits bool.splits)

lemma run_steps_skip:
  assumes "conditions s \<noteq> []"
    and "match_conditions E (conditions s) (mk_context td (execution_results st)) = Inr False"
  shows "run_steps E td (s # ss) st = run_steps E td ss st"
  using assms by (simp add: Let_def)

lemma run_steps_names:
  "r \<in> set (results (snd (run_steps E td ss st))) \<Longrightarrow>
   r \<in> set (results st) \<or> (\<exists>s\<in>set ss. step_name r = name s)"
proof (induction ss arbitrary: st)
  case Nil
  then show ?case by simp
next
  case (Cons s ss)
  let ?ctx = "mk_context td (execution_results st)"
  let ?m = "if conditions s = [] then Inr True else match_conditions E (conditions s) ?ctx"
  show ?case
  proof (cases ?m)
    case (Inl e)
    with Cons.prems show ?thesis by (simp add: Let_def)
  next
    case (Inr b)
    show ?thesis
    proof (cases b)
      case False
      with Inr Cons.prems have "r \<in> set (results (snd (run_steps E td ss st)))"
        by (simp add: Let_def)
      from Cons.IH [OF this] show ?thesis by auto
    next
      case True
      show ?thesis
      proof (cases "execute_tool E (tool s) (params s) ?ctx")
        case (Inl e)
        with Inr True Cons.prems
        have "r \<in> set (results (snd (run_steps E td ss (step_failed E s e st))))"
          by (simp add: Let_def)
        from Cons.IH [OF this] show ?thesis by (auto simp: step_failed_def)
      next
        case (Inr v)
        with \<open>?m = Inr b\<close> True Cons.prems
        have "r \<in> set (results (snd (run_steps E td ss (step_ok E s v st))))"
          by (simp add: Let_def)
        from Cons.IH [OF this] show ?thesis by (auto simp: step_ok_def)
      qed
    qed
  qed
qed

lemma steps_completed_execute_workflow:
  "steps_completed (fst (execute_workflow E eng wname event td)) =
     (case workflows eng wname of
        None \<Rightarrow> []
      | Some ss \<Rightarrow>
          results (snd (run_steps E td ss \<lparr>results = [], execution_results = [], tick = 2\<rparr>)))"
  by (simp add: execute_workflow_def Let_def split: option.splits prod.splits)

lemma status_execute_workflow:
  "status (fst (execute_workflow E eng wname event td)) =
     (case workflows eng wname of
        None \<Rightarrow> ''failed''
      | Some ss \<Rightarrow>
          (case fst (run_steps E td ss \<lparr>results = [], execution_results = [], tick = 2\<rparr>) of
             None \<Rightarrow> ''completed''
           | Some e \<Rightarrow> ''failed''))"
  by (simp add: execute_workflow_def Let_def split: option.splits prod.splits)

lemma execution_id_execute_workflow:
  "execution_id (fst (execute_workflow E eng wname event td)) =
     wname @ ''_'' @ strftime_id (now E 0)"
  by (simp add: execute_workflow_def Let_def split: option.splits prod.splits)

text \<open>The only exception that leaves the loop is one of the condition matcher; an
  exception of a tool never does.\<close>

lemma run_steps_error_is_of_matcher:
  "fst (run_steps E td ss st) = Some e \<Longrightarrow>
   \<exists>s\<in>set ss. \<exists>er. conditions s \<noteq> [] \<and>
      match_conditions E (conditions s) (mk_context td er) = Inl e"
proof (induction ss arbitrary: st)
  case Nil
  then show ?case by simp
next
  case (Cons s ss)
  let ?ctx = "mk_context td (execution_results st)"
  let ?m = "if conditions s = [] then Inr True else match_conditions E (conditions s) ?ctx"
  show ?case
  proof (cases ?m)
    case (Inl e')
    with Cons.prems have "e' = e" by (simp add: Let_def)
    with Inl have "conditions s \<noteq> [] \<and> match_conditions E (conditions s) ?ctx = Inl e"
      by (auto split: if_splits)
    then show ?thesis by auto
  next
    case (Inr b)
    show ?thesis
    proof (cases b)
      case False
      with Inr Cons.prems have "fst (run_steps E td ss st) = Some e"
        by (simp add: Let_def)
      from Cons.IH [OF this] show ?thesis by auto
    next
      case True
      show ?thesis
      proof (cases "execute_tool E (tool s) (params s) ?ctx")
        case (Inl e')
        with Inr True Cons.prems
        have "fst (run_steps E td ss (step_failed E s e' st)) = Some e"
          by (simp add: Let_def)
        from Cons.IH [OF this] show ?thesis by auto
      next
        case (Inr v)
        with \<open>?m = Inr b\<close> True Cons.prems
        have "fst (run_steps E td ss (step_ok E s v st)) = Some e"
          by (simp add: Let_def)
        from Cons.IH [OF this] show ?thesis by auto
      qed
    qed
  qed
qed

lemma unconditional_steps_complete:
  assumes "workflows eng wname = Some ss" and "\<forall>s\<in>set ss. conditions s = []"
  shows "status (fst (execute_workflow E eng wname event td)) = ''completed''"
proof -
  let ?r = "run_steps E td ss \<lparr>results = [], execution_results = [], tick = 2\<rparr>"
  have "fst ?r = None"
  proof (cases "fst ?r")
    case None
    then show ?thesis .
  next
    case (Some e)
    from run_steps_error_is_of_matcher [OF this] assms(2) show ?thesis by auto
  qed
  then show ?thesis using assms(1) by (simp add: status_execute_workflow)
qed

text \<open>A tool name of no known namespace: once the parameters are resolved, the dispatcher
  raises \<^verbatim>\<open>ValueError\<close>.\<close>

lemma execute_tool_unknown_namespace:
  assumes "resolve_parameters ps context = Inr rs"
    and "\<not> startswith ''ai_'' t" "\<not> startswith ''crm_'' t" "\<not> startswith ''vision_'' t"
    and "\<not> startswith ''quickbooks_'' t" "t \<noteq> ''workflow_log''"
  shows "execute_tool E t ps context = Inl (ValueError (''Unknown tool: '' @ t))"
  using assms by (simp add: execute_tool_def)



text \<open>
  Claim C8. A step with conditions that evaluate to false in the context in which
  the loop reaches it leaves no trace: the loop goes on with the steps after it from the
  state it was in. And every step result of a run carries the name of a step of the
  workflow definition that was run.
\<close>

theorem skipped_step_leaves_no_result:
  "(run_steps E td pre st0 = (None, st) \<and> conditions s \<noteq> [] \<and>
    match_conditions E (conditions s) (mk_context td (execution_results st)) = Inr False \<longrightarrow>
      run_steps E td (pre @ s # post) st0 = run_steps E td post st) \<and>
   (\<forall>r\<in>set (steps_completed (fst (execute_workflow E eng wname event td))).
      \<exists>ss s'. workflows eng wname = Some ss \<and> s' \<in> set ss \<and> step_name r = name s')"
proof (intro conjI impI ballI)
  assume a: "run_steps E td pre st0 = (None, st) \<and> conditions s \<noteq> [] \<and>
    match_conditions E (conditions s) (mk_context td (execution_results st)) = Inr False"
  then have "run_steps E td (s # post) st = run_steps E td post st"
    using run_steps_skip by blast
  with a show "run_steps E td (pre @ s # post) st0 = run_steps E td post st"
    by (simp add: run_steps_append del: run_steps.simps)
next
  fix r
  assume r: "r \<in> set (steps_completed (fst (execute_workflow E eng wname event td)))"
  show "\<exists>ss s'. workflows eng wname = Some ss \<and> s' \<in> set ss \<and> step_name r = name s'"
  proof (cases "workflows eng wname")
    case None
    with r show ?thesis by (simp add: steps_completed_execute_workflow)
  next
    case (Some ss)
    with r have "r \<in> set (results (snd (run_steps E td ss
                   \<lparr>results = [], execution_results = [], tick = 2\<rparr>)))"
      by (simp add: steps_completed_execute_workflow)
    from run_steps_names [OF this] Some show ?thesis by auto
  qed
qed

theorem skipped_step_leaves_no_result_witness:
  "run_steps example_env [(''STATUS'', PStr ''closed'')] []
     \<lparr>results = [], execution_results = [], tick = 2\<rparr>
     = (None, \<lparr>results = [], execution_results = [], tick = 2\<rparr>) \<and>
   conditions task_step \<noteq> [] \<and>
   match_conditions example_env (conditions task_step)
     (mk_context [(''STATUS'', PStr ''closed'')] []) = Inr False \<and>
   map step_name (results (snd (run_steps example_env [(''STATUS'', PStr ''closed'')]
     [task_step, log_step] \<lparr>results = [], execution_results = [], tick = 2\<rparr>))) = [''log''] \<and>
   workflows example_engine ''gated'' = Some [task_step, log_step] \<and>
   map step_name (steps_completed (fst (execute_workflow example_env example_engine ''gated''
     ''status_changed'' [(''STATUS'', PStr ''closed'')]))) = [''log''] \<and>
   log_step \<in> set [task_step, log_step] \<and> name log_step = ''log''"
proof -
  let ?td = "[(''STATUS'', PStr ''closed'')]"
  let ?st = "\<lparr>results = [], execution_results = [], tick = 2\<rparr>"
  let ?ex = "fst (execute_workflow example_env example_engine ''gated'' ''status_changed'' ?td)"
  note t = skipped_step_leaves_no_result [of example_env ?td "[]" ?st ?st task_step "[log_step]"
             example_engine "''gated''" "''status_changed''"]
  have h1: "run_steps example_env ?td [] ?st = (None, ?st)" by simp
  have h2: "conditions task_step \<noteq> []" by (simp add: task_step_def)
  have h3: "match_conditions example_env (conditions task_step) (mk_context ?td []) = Inr False"
    by code_simp
  have r1: "run_steps example_env ?td [task_step, log_step] ?st
              = run_steps example_env ?td [log_step] ?st"
    using t h1 h2 h3 by simp
  have r2: "map step_name (results (snd (run_steps example_env ?td [log_step] ?st))) = [''log'']"
    by code_simp
  have w: "workflows example_engine ''gated'' = Some [task_step, log_step]"
    by (simp add: example_engine_def)
  have sc: "steps_completed ?ex = results (snd (run_steps example_env ?td [task_step, log_step] ?st))"
    by (simp add: steps_completed_execute_workflow w del: run_steps.simps)
  have n: "map step_name (steps_completed ?ex) = [''log'']"
    unfolding sc r1 by (rule r2)
  from n obtain r where r: "steps_completed ?ex = [r]" by auto
  have "\<exists>ss s'. workflows example_engine ''gated'' = Some ss \<and> s' \<in> set ss \<and>
          step_name r = name s'"
    using t r by simp
  show ?thesis
    using h1 h2 h3 r1 r2 w n by (simp add: log_step_def)
qed

text \<open>
  Claim C4. A workflow name that is not in the table: the run ends with the status
  \<^verbatim>\<open>failed\<close> and no step result. \<open>execute_workflow\<close> catches the \<^verbatim>\<open>KeyError\<close> itself and
  returns the execution, so \<open>trigger_workflow\<close> answers as for any other run: with
  \<^verbatim>\<open>"success": true\<close>, the execution id, the status, the number of step results and the
  workflow name, and with no message.
\<close>

theorem unknown_workflow_answer:
  "workflows example_engine ''no_such_workflow'' = None \<and>
   fst (trigger_workflow example_env example_engine ''no_such_workflow'' ''manual'' []) =
     json_dumps example_env (Some 2)
       (PDict [(''success'', PBool True),
               (''execution_id'', PStr ''no_such_workflow_20250314_093005''),
               (''status'', PStr ''failed''),
               (''steps_completed'', PInt 0),
               (''workflow_name'', PStr ''no_such_workflow'')])"
  by code_simp

theorem unknown_workflow_reported_as_success:
  assumes "workflows eng wname = None"
  shows "status (fst (execute_workflow E eng wname event td)) = ''failed'' \<and>
         steps_completed (fst (execute_workflow E eng wname event td)) = [] \<and>
         fst (trigger_workflow E eng wname event td) =
           json_dumps E (Some 2)
             (PDict [(''success'', PBool True),
                     (''execution_id'', PStr (wname @ ''_'' @ strftime_id (now E 0))),
                     (''status'', PStr ''failed''),
                     (''steps_completed'', PInt 0),
                     (''workflow_name'', PStr wname)])"
  using assms
  by (simp add: trigger_workflow_def trigger_result_def execute_workflow_def Let_def
        split: prod.splits)

theorem unknown_workflow_reported_as_success_witness:
  "workflows example_engine ''intake_v2'' = None \<and>
   status (fst (execute_workflow example_env example_engine ''intake_v2'' ''manual''
                  example_trigger_data)) = ''failed'' \<and>
   steps_completed (fst (execute_workflow example_env example_engine ''intake_v2'' ''manual''
                           example_trigger_data)) = [] \<and>
   fst (trigger_workflow example_env example_engine ''intake_v2'' ''manual'' example_trigger_data) =
     json_text
       (PDict [(''success'', PBool True),
               (''execution_id'', PStr ''intake_v2_20250314_093005''),
               (''status'', PStr ''failed''),
               (''steps_completed'', PInt 0),
               (''workflow_name'', PStr ''intake_v2'')])"
proof -
  have h: "workflows example_engine ''intake_v2'' = None"
    by (simp add: example_engine_def)
  have i: "strftime_id (now example_env 0) = ''20250314_093005''" by code_simp
  have j: "json_dumps example_env (Some 2) = json_text" by (simp add: example_env_def)
  show ?thesis
    using h unknown_workflow_reported_as_success [OF h, of example_env "''manual''" example_trigger_data]
    by (simp add: i j)
qed

end
